theory Spec2Isabelle
  imports Complex_Main "HOL-Library.AList"
begin

section \<open>Collaborative canvas: the operation log and the server relay\<close>

text \<open>
  A shallow embedding of \<^verbatim>\<open>src/server/drawing-state.ts\<close>, of the message handlers of
  \<^verbatim>\<open>src/server/server.ts\<close>, of the room manager and of
  \<^verbatim>\<open>CanvasManager.loadOperations\<close> in \<^verbatim>\<open>src/client/main.ts\<close>.
  Mutation is explicit state passing; \<^verbatim>\<open>Date.now()\<close> and \<^verbatim>\<open>uuidv4()\<close> are
  parameters of the handlers; what a handler emits is returned as a list.
\<close>

subsection \<open>JavaScript numbers\<close>

text \<open>
  \<^verbatim>\<open>Math.max\<close>, \<^verbatim>\<open>Math.min\<close> and the truth value of a number involve no rounding, so
  a number is modelled as a finite real, one of the two infinities, or NaN. The sign of zero
  is not modelled.
\<close>

datatype jsnum = Finite real | PosInf | NegInf | NaN

fun math_max :: "jsnum \<Rightarrow> jsnum \<Rightarrow> jsnum" where
  "math_max NaN b = NaN"
| "math_max a NaN = NaN"
| "math_max PosInf b = PosInf"
| "math_max a PosInf = PosInf"
| "math_max NegInf b = b"
| "math_max a NegInf = a"
| "math_max (Finite a) (Finite b) = Finite (max a b)"

fun math_min :: "jsnum \<Rightarrow> jsnum \<Rightarrow> jsnum" where
  "math_min NaN b = NaN"
| "math_min a NaN = NaN"
| "math_min NegInf b = NegInf"
| "math_min a NegInf = NegInf"
| "math_min PosInf b = b"
| "math_min a PosInf = a"
| "math_min (Finite a) (Finite b) = Finite (min a b)"

text \<open>The truth value of a number: \<^verbatim>\<open>0\<close> and \<^verbatim>\<open>NaN\<close> are falsy.\<close>

fun truthy_num :: "jsnum \<Rightarrow> bool" where
  "truthy_num (Finite r) = (r \<noteq> 0)"
| "truthy_num NaN = False"
| "truthy_num PosInf = True"
| "truthy_num NegInf = True"

text \<open>The truth value of an optional string: \<^verbatim>\<open>undefined\<close> and \<^verbatim>\<open>""\<close> are falsy.\<close>

fun truthy_str :: "string option \<Rightarrow> bool" where
  "truthy_str None = False"
| "truthy_str (Some s) = (s \<noteq> [])"

text \<open>\<^verbatim>\<open>n >= 0\<close> on a number (false on NaN).\<close>

fun nonneg :: "jsnum \<Rightarrow> bool" where
  "nonneg (Finite r) = (0 \<le> r)"
| "nonneg PosInf = True"
| "nonneg NegInf = False"
| "nonneg NaN = False"

subsection \<open>Data model (\<^verbatim>\<open>drawing-state.ts\<close>)\<close>

text \<open>
  A coordinate received from a client is \<^verbatim>\<open>Some n\<close> when \<^verbatim>\<open>typeof\<close> gives
  \<^verbatim>\<open>'number'\<close> and \<^verbatim>\<open>None\<close> otherwise (absent, or of another type).
\<close>

record Point =
  point_x :: "jsnum option"
  point_y :: "jsnum option"
  pressure :: "jsnum option"

datatype OperationType = Draw | Erase | Clear | Rectangle | Circle | Text | Image

text \<open>
  Optional fields are options. A falsy \<^verbatim>\<open>id\<close> of an operation sent by a client (absent
  or empty) is the empty string.
\<close>

record DrawingOperation =
  op_id :: string
  userId :: string
  op_type :: OperationType
  timestamp :: int
  path :: "Point list option"
  color :: "string option"
  lineWidth :: "jsnum option"
  eraserRadius :: "jsnum option"
  startPoint :: "Point option"
  endPoint :: "Point option"
  op_text :: "string option"
  fontSize :: "jsnum option"
  imageData :: "string option"
  imageWidth :: "jsnum option"
  imageHeight :: "jsnum option"

record UserInfo =
  user_id :: string
  user_name :: string
  user_color :: string
  cursorPosition :: "Point option"
  lastSeen :: int

text \<open>
  The users of a room are a JavaScript \<^verbatim>\<open>Map\<close>, which keeps insertion order: an
  association list, written with \<^const>\<open>AList.update\<close> (replace in place, or append).
\<close>

record RoomState =
  operations :: "DrawingOperation list"
  users :: "(string \<times> UserInfo) list"

text \<open>The private field \<^verbatim>\<open>rooms\<close> of \<^verbatim>\<open>DrawingStateManager\<close>.\<close>

type_synonym DrawingStateManager = "string \<rightharpoonup> RoomState"

definition MAX_OPERATIONS :: nat where
  "MAX_OPERATIONS = 500"

definition empty_room :: RoomState where
  "empty_room = \<lparr>operations = [], users = []\<rparr>"

text \<open>\<^verbatim>\<open>getRoomState\<close>: get or create; the manager with the room created is returned too.\<close>

definition getRoomState :: "DrawingStateManager \<Rightarrow> string \<Rightarrow> RoomState \<times> DrawingStateManager" where
  "getRoomState rooms roomId =
     (case rooms roomId of
        None \<Rightarrow> (empty_room, rooms(roomId \<mapsto> empty_room))
      | Some state \<Rightarrow> (state, rooms))"

text \<open>\<^verbatim>\<open>addOperation\<close>: push, then one \<^verbatim>\<open>shift()\<close> when the length exceeds the limit.\<close>

definition addOperation :: "DrawingStateManager \<Rightarrow> string \<Rightarrow> DrawingOperation \<Rightarrow> DrawingStateManager" where
  "addOperation rooms roomId operation =
     (let (state, rooms') = getRoomState rooms roomId;
          pushed = operations state @ [operation];
          trimmed = (if length pushed > MAX_OPERATIONS then tl pushed else pushed)
      in rooms'(roomId \<mapsto> state\<lparr>operations := trimmed\<rparr>))"

text \<open>\<^verbatim>\<open>getOperations\<close>: the array of the room (empty for a room not yet created).\<close>

definition getOperations :: "DrawingStateManager \<Rightarrow> string \<Rightarrow> DrawingOperation list" where
  "getOperations rooms roomId = operations (fst (getRoomState rooms roomId))"

text \<open>
  The loop of \<^verbatim>\<open>undoOperation\<close>:
  \<^verbatim>\<open>while (index >= 0 && operations[index].userId !== userId) index--;\<close>
\<close>

function undo_scan :: "DrawingOperation list \<Rightarrow> string \<Rightarrow> int \<Rightarrow> int" where
  "undo_scan ops u index =
     (if index \<ge> 0 \<and> userId (ops ! nat index) \<noteq> u
      then undo_scan ops u (index - 1)
      else index)"
  by pat_completeness auto
termination
  by (relation "measure (\<lambda>(ops, u, index). nat (index + 1))") auto

declare undo_scan.simps [simp del]

text \<open>
  \<^verbatim>\<open>undoOperation(roomId, userId?)\<close>: the result (\<^verbatim>\<open>null\<close> is \<^const>\<open>None\<close>) and the
  manager after the call. The test \<^verbatim>\<open>if (userId)\<close> is the truth value of the argument.
\<close>

definition undoOperation ::
  "DrawingStateManager \<Rightarrow> string \<Rightarrow> string option \<Rightarrow> DrawingOperation option \<times> DrawingStateManager" where
  "undoOperation rooms roomId uid =
     (let (state, rooms') = getRoomState rooms roomId;
          ops = operations state
      in if length ops = 0 then (None, rooms')
         else
           let start = int (length ops) - 1;
               index = (if truthy_str uid then undo_scan ops (the uid) start else start)
           in if index < 0 then (None, rooms')
              else (Some (ops ! nat index),
                    rooms'(roomId \<mapsto> state\<lparr>operations := take (nat index) ops @ drop (nat index + 1) ops\<rparr>)))"

text \<open>The index that \<^verbatim>\<open>undoOperation\<close> computes on a given array, for the proofs.\<close>

definition undo_index :: "DrawingOperation list \<Rightarrow> string option \<Rightarrow> int" where
  "undo_index ops uid =
     (if truthy_str uid then undo_scan ops (the uid) (int (length ops) - 1)
      else int (length ops) - 1)"

text \<open>\<^verbatim>\<open>addUser\<close>; \<^verbatim>\<open>Map.set\<close> replaces the entry of a known key and appends a new one.\<close>

definition addUser ::
  "DrawingStateManager \<Rightarrow> int \<Rightarrow> string \<Rightarrow> string \<Rightarrow> string \<Rightarrow> string \<Rightarrow> DrawingStateManager" where
  "addUser rooms now roomId uid uname col =
     (let (state, rooms') = getRoomState rooms roomId
      in rooms'(roomId \<mapsto> state\<lparr>users :=
           AList.update uid
             \<lparr>user_id = uid, user_name = uname, user_color = col,
              cursorPosition = None, lastSeen = now\<rparr>
             (users state)\<rparr>))"

record Snapshot =
  snap_operations :: "DrawingOperation list"
  snap_users :: "UserInfo list"

definition getStateSnapshot :: "DrawingStateManager \<Rightarrow> string \<Rightarrow> Snapshot \<times> DrawingStateManager" where
  "getStateSnapshot rooms roomId =
     (let (state, rooms') = getRoomState rooms roomId
      in (\<lparr>snap_operations = operations state, snap_users = map snd (users state)\<rparr>, rooms'))"

subsection \<open>Room manager\<close>

record RoomConfig =
  room_id :: string
  room_name :: string
  maxUsers :: "nat option"
  createdAt :: int

record RoomManager =
  rooms :: "string \<rightharpoonup> RoomConfig"
  userColors :: "string \<rightharpoonup> string"
  colorIndex :: nat

definition DEFAULT_COLORS :: "string list" where
  "DEFAULT_COLORS =
     [''#FF6B6B'', ''#4ECDC4'', ''#45B7D1'', ''#FFA07A'', ''#98D8C8'',
      ''#F7DC6F'', ''#BB8FCE'', ''#85C1E2'', ''#F8B739'', ''#52BE80'']"

definition createRoom :: "RoomManager \<Rightarrow> int \<Rightarrow> string \<Rightarrow> string option \<Rightarrow> RoomConfig \<times> RoomManager" where
  "createRoom rm now roomId roomName =
     (let config = \<lparr>room_id = roomId,
                     room_name = (if truthy_str roomName then the roomName else ''Room '' @ roomId),
                     maxUsers = None, createdAt = now\<rparr>
      in (config, rm\<lparr>rooms := (rooms rm)(roomId \<mapsto> config)\<rparr>))"

definition roomExists :: "RoomManager \<Rightarrow> string \<Rightarrow> bool" where
  "roomExists rm roomId = (rooms rm roomId \<noteq> None)"

definition assignUserColor :: "RoomManager \<Rightarrow> string \<Rightarrow> string \<times> RoomManager" where
  "assignUserColor rm uid =
     (case userColors rm uid of
        Some c \<Rightarrow> (c, rm)
      | None \<Rightarrow>
          (let c = DEFAULT_COLORS ! (colorIndex rm mod length DEFAULT_COLORS)
           in (c, rm\<lparr>colorIndex := colorIndex rm + 1, userColors := (userColors rm)(uid \<mapsto> c)\<rparr>)))"

subsection \<open>Server state, session and emitted events (\<^verbatim>\<open>server.ts\<close>)\<close>

text \<open>
  The server holds the two managers and the transport's room membership (which sockets have
  joined which room). The variables captured by one connection's handlers
  (\<^verbatim>\<open>currentRoom\<close>, \<^verbatim>\<open>userId = socket.id\<close>, \<^verbatim>\<open>userName\<close>, \<^verbatim>\<open>userColor\<close>) are the session.
\<close>

record Server =
  drawingState :: DrawingStateManager
  roomManager :: RoomManager
  members :: "string \<Rightarrow> string set"

record Session =
  currentRoom :: string
  sess_userId :: string
  userName :: string
  userColor :: string

text \<open>
  \<^verbatim>\<open>socket.emit\<close> reaches the sender only, \<^verbatim>\<open>socket.to(room).emit\<close> every member of the
  room but the sender, \<^verbatim>\<open>io.to(room).emit\<close> every member of the room.
\<close>

datatype Audience = ToSender | ToOthers string | ToRoom string

datatype Event =
    ErrorEv string
  | RoomStateEv Snapshot
  | UserJoinedEv string string string
  | UserLeftEv string
  | DrawStartEv DrawingOperation
  | DrawProgressEv string Point
  | EraseEv DrawingOperation
  | ShapeEv DrawingOperation
  | TextEv DrawingOperation
  | ImageEv DrawingOperation
  | ClearCanvasEv DrawingOperation
  | UndoEv string string

type_synonym Emit = "Audience \<times> Event"

fun recipients :: "(string \<Rightarrow> string set) \<Rightarrow> string \<Rightarrow> Audience \<Rightarrow> string set" where
  "recipients mem sender ToSender = {sender}"
| "recipients mem sender (ToOthers room) = mem room - {sender}"
| "recipients mem sender (ToRoom room) = mem room"

datatype js_error = TypeError

text \<open>An operation with every optional field absent.\<close>

definition new_operation :: "string \<Rightarrow> string \<Rightarrow> OperationType \<Rightarrow> int \<Rightarrow> DrawingOperation" where
  "new_operation i uid ty ts =
     \<lparr>op_id = i, userId = uid, op_type = ty, timestamp = ts, path = None, color = None,
      lineWidth = None, eraserRadius = None, startPoint = None, endPoint = None,
      op_text = None, fontSize = None, imageData = None, imageWidth = None,
      imageHeight = None\<rparr>"

definition DEFAULT_ROOM :: string where
  "DEFAULT_ROOM = ''default''"

text \<open>The connection handler, up to the registration of the message handlers.\<close>

definition handle_connection :: "Server \<Rightarrow> int \<Rightarrow> string \<Rightarrow> Server \<times> Session \<times> Emit list" where
  "handle_connection st now socket_id =
     (let room = DEFAULT_ROOM;
          uid = socket_id;
          uname = ''User '' @ take 6 socket_id;
          rm1 = (if \<not> roomExists (roomManager st) room
                 then snd (createRoom (roomManager st) now room None) else roomManager st);
          (col, rm2) = assignUserColor rm1 uid;
          mem = (members st)(room := insert socket_id (members st room));
          (snapshot, ds1) = getStateSnapshot (drawingState st) room;
          ds2 = addUser ds1 now room uid uname col
      in (\<lparr>drawingState = ds2, roomManager = rm2, members = mem\<rparr>,
          \<lparr>currentRoom = room, sess_userId = uid, userName = uname, userColor = col\<rparr>,
          [(ToSender, RoomStateEv snapshot),
           (ToOthers room, UserJoinedEv uid uname col)]))"

subsection \<open>\<^verbatim>\<open>join-room\<close>\<close>

text \<open>
  \<^verbatim>\<open>roomId\<close> is \<^const>\<open>None\<close> when it is absent or not a string. A \<^typ>\<open>char\<close> is one
  of 256 values, a character of a JavaScript string one of 65536 code units: the strings
  modelled are those of code units below 256, on which \<^verbatim>\<open>roomId.length\<close> is
  \<^const>\<open>length\<close>. The characters that \<^verbatim>\<open>/[^a-zA-Z0-9-_]/g\<close> keeps:
\<close>

definition room_char :: "char \<Rightarrow> bool" where
  "room_char c =
     (c \<in> set ''abcdefghijklmnopqrstuvwxyzABCDEFGHIJKLMNOPQRSTUVWXYZ0123456789-_'')"

record join_room_data =
  jr_roomId :: "string option"
  jr_userName :: "string option"

definition handle_join_room ::
  "Server \<Rightarrow> Session \<Rightarrow> int \<Rightarrow> join_room_data option \<Rightarrow> Server \<times> Session \<times> Emit list" where
  "handle_join_room st sess now data =
     (case data of
        None \<Rightarrow> (st, sess, [(ToSender, ErrorEv ''Invalid join-room data'')])
      | Some d \<Rightarrow>
          if \<not> truthy_str (jr_roomId d) \<or> length (the (jr_roomId d)) > 50
          then (st, sess, [(ToSender, ErrorEv ''Invalid room ID'')])
          else
            let roomId = the (jr_roomId d);
                sanitizedRoomId = filter room_char roomId
            in if sanitizedRoomId \<noteq> roomId
               then (st, sess, [(ToSender, ErrorEv ''Room ID contains invalid characters'')])
               else
                 let uid = sess_userId sess;
                     old = currentRoom sess;
                     mem1 = (members st)(old := members st old - {uid});
                     rm1 = (if \<not> roomExists (roomManager st) roomId
                            then snd (createRoom (roomManager st) now roomId None)
                            else roomManager st);
                     uname = (if truthy_str (jr_userName d) then the (jr_userName d)
                              else userName sess);
                     mem2 = mem1(roomId := insert uid (mem1 roomId));
                     (col, rm2) = assignUserColor rm1 uid;
                     ds1 = addUser (drawingState st) now roomId uid uname col;
                     (snapshot, ds2) = getStateSnapshot ds1 roomId
                 in (\<lparr>drawingState = ds2, roomManager = rm2, members = mem2\<rparr>,
                     sess\<lparr>currentRoom := roomId, userName := uname\<rparr>,
                     [(ToOthers old, UserLeftEv uid),
                      (ToSender, RoomStateEv snapshot),
                      (ToOthers roomId, UserJoinedEv uid uname col)]))"

subsection \<open>\<^verbatim>\<open>draw-start\<close> and \<^verbatim>\<open>draw-progress\<close>\<close>

record draw_start_data =
  ds_point :: "Point option"
  ds_color :: "string option"
  ds_lineWidth :: "jsnum option"
  ds_operationId :: "string option"

text \<open>
  \<^verbatim>\<open>data.color\<close> is \<^const>\<open>None\<close> when it is not a string, \<^verbatim>\<open>data.lineWidth\<close> when it is
  missing or a falsy value that is not a number. The declared type of the field is
  \<^verbatim>\<open>number\<close>: a truthy value of another type is not modelled.
\<close>

definition handle_draw_start ::
  "Server \<Rightarrow> Session \<Rightarrow> int \<Rightarrow> string \<Rightarrow> draw_start_data option \<Rightarrow> Server \<times> Emit list" where
  "handle_draw_start st sess now uuid data =
     (if data = None \<or> ds_point (the data) = None
         \<or> point_x (the (ds_point (the data))) = None
         \<or> point_y (the (ds_point (the data))) = None
      then (st, [(ToSender, ErrorEv ''Invalid draw-start data'')])
      else
        let d = the data;
            col = (case ds_color d of Some c \<Rightarrow> c | None \<Rightarrow> ''#000000'');
            lw = math_max (Finite 1) (math_min (Finite 100)
                   (case ds_lineWidth d of
                      Some w \<Rightarrow> if truthy_num w then w else Finite 5
                    | None \<Rightarrow> Finite 5));
            pt = \<lparr>point_x = Some (math_max (Finite 0) (the (point_x (the (ds_point d))))),
                  point_y = Some (math_max (Finite 0) (the (point_y (the (ds_point d))))),
                  pressure = None\<rparr>;
            operationId = (if truthy_str (ds_operationId d) then the (ds_operationId d) else uuid);
            operation = (new_operation operationId (sess_userId sess) Draw now)
                          \<lparr>path := Some [pt], color := Some col, lineWidth := Some lw\<rparr>
        in (st\<lparr>drawingState := addOperation (drawingState st) (currentRoom sess) operation\<rparr>,
            [(ToOthers (currentRoom sess), DrawStartEv operation)]))"

text \<open>
  \<^verbatim>\<open>operation.path.push(newPoint)\<close> changes the object that \<^verbatim>\<open>find\<close> returned, which
  is the first element of the array that satisfies the test.
\<close>

fun update_first :: "('a \<Rightarrow> bool) \<Rightarrow> ('a \<Rightarrow> 'a) \<Rightarrow> 'a list \<Rightarrow> 'a list" where
  "update_first P f [] = []"
| "update_first P f (x # xs) = (if P x then f x # xs else x # update_first P f xs)"

record draw_progress_data =
  dp_operationId :: "string option"
  dp_point :: "Point option"

definition handle_draw_progress ::
  "Server \<Rightarrow> Session \<Rightarrow> draw_progress_data option \<Rightarrow> Server \<times> Emit list" where
  "handle_draw_progress st sess data =
     (if data = None \<or> \<not> truthy_str (dp_operationId (the data)) \<or> dp_point (the data) = None
      then (st, [])
      else if point_x (the (dp_point (the data))) = None
              \<or> point_y (the (dp_point (the data))) = None
      then (st, [])
      else
        let d = the data;
            oid = the (dp_operationId d);
            (state, mgr) = getRoomState (drawingState st) (currentRoom sess);
            st1 = st\<lparr>drawingState := mgr\<rparr>
        in case find (\<lambda>e. op_id e = oid) (operations state) of
             None \<Rightarrow> (st1, [])
           | Some operation \<Rightarrow>
               if userId operation = sess_userId sess \<and> path operation \<noteq> None
               then
                 if length (the (path operation)) < 10000
                 then
                   let newPoint =
                         \<lparr>point_x = Some (math_max (Finite 0) (the (point_x (the (dp_point d))))),
                          point_y = Some (math_max (Finite 0) (the (point_y (the (dp_point d))))),
                          pressure = None\<rparr>;
                       ops = update_first (\<lambda>e. op_id e = oid)
                               (\<lambda>e. e\<lparr>path := Some (the (path e) @ [newPoint])\<rparr>)
                               (operations state)
                   in (st\<lparr>drawingState := mgr(currentRoom sess \<mapsto> state\<lparr>operations := ops\<rparr>)\<rparr>,
                       [(ToOthers (currentRoom sess), DrawProgressEv oid newPoint)])
                 else (st1, [])
               else (st1, []))"

subsection \<open>\<^verbatim>\<open>erase\<close>, \<^verbatim>\<open>shape\<close>, \<^verbatim>\<open>text\<close>, \<^verbatim>\<open>image\<close>\<close>

record erase_data =
  er_point :: Point
  er_radius :: "jsnum option"

text \<open>
  The \<^verbatim>\<open>erase\<close> handler reads \<^verbatim>\<open>data.point\<close> with no check: on a message without
  payload it throws.
\<close>

definition handle_erase ::
  "Server \<Rightarrow> Session \<Rightarrow> int \<Rightarrow> string \<Rightarrow> erase_data option \<Rightarrow> js_error + Server \<times> Emit list" where
  "handle_erase st sess now uuid data =
     (case data of
        None \<Rightarrow> Inl TypeError
      | Some d \<Rightarrow>
          let operation = (new_operation uuid (sess_userId sess) Erase now)
                            \<lparr>path := Some [er_point d], eraserRadius := er_radius d\<rparr>
          in Inr (st\<lparr>drawingState := addOperation (drawingState st) (currentRoom sess) operation\<rparr>,
                  [(ToOthers (currentRoom sess), EraseEv operation)]))"

definition handle_shape ::
  "Server \<Rightarrow> Session \<Rightarrow> int \<Rightarrow> string \<Rightarrow> DrawingOperation option \<Rightarrow> Server \<times> Emit list" where
  "handle_shape st sess now uuid operation =
     (if operation = None \<or> startPoint (the operation) = None \<or> endPoint (the operation) = None
      then (st, [(ToSender, ErrorEv ''Invalid shape data'')])
      else
        let opn = the operation;
            shapeOperation =
              (new_operation (if op_id opn \<noteq> [] then op_id opn else uuid)
                 (sess_userId sess) (op_type opn) now)
                \<lparr>startPoint := Some \<lparr>point_x = point_x (the (startPoint opn)),
                                      point_y = point_y (the (startPoint opn)),
                                      pressure = None\<rparr>,
                 endPoint := Some \<lparr>point_x = point_x (the (endPoint opn)),
                                    point_y = point_y (the (endPoint opn)),
                                    pressure = None\<rparr>,
                 color := color opn, lineWidth := lineWidth opn\<rparr>
        in (st\<lparr>drawingState := addOperation (drawingState st) (currentRoom sess) shapeOperation\<rparr>,
            [(ToOthers (currentRoom sess), ShapeEv shapeOperation)]))"

definition handle_text ::
  "Server \<Rightarrow> Session \<Rightarrow> int \<Rightarrow> string \<Rightarrow> DrawingOperation option \<Rightarrow> Server \<times> Emit list" where
  "handle_text st sess now uuid operation =
     (if operation = None \<or> \<not> truthy_str (op_text (the operation))
         \<or> startPoint (the operation) = None
      then (st, [(ToSender, ErrorEv ''Invalid text data'')])
      else
        let opn = (the operation)
                    \<lparr>op_id := (if op_id (the operation) \<noteq> [] then op_id (the operation) else uuid),
                     userId := sess_userId sess, timestamp := now\<rparr>
        in (st\<lparr>drawingState := addOperation (drawingState st) (currentRoom sess) opn\<rparr>,
            [(ToOthers (currentRoom sess), TextEv opn)]))"

definition handle_image ::
  "Server \<Rightarrow> Session \<Rightarrow> int \<Rightarrow> string \<Rightarrow> DrawingOperation option \<Rightarrow> Server \<times> Emit list" where
  "handle_image st sess now uuid operation =
     (if operation = None \<or> \<not> truthy_str (imageData (the operation))
         \<or> startPoint (the operation) = None
      then (st, [(ToSender, ErrorEv ''Invalid image data'')])
      else
        let opn = (the operation)
                    \<lparr>op_id := (if op_id (the operation) \<noteq> [] then op_id (the operation) else uuid),
                     userId := sess_userId sess, timestamp := now\<rparr>
        in (st\<lparr>drawingState := addOperation (drawingState st) (currentRoom sess) opn\<rparr>,
            [(ToOthers (currentRoom sess), ImageEv opn)]))"

subsection \<open>\<^verbatim>\<open>clear-canvas\<close> and \<^verbatim>\<open>undo\<close>\<close>

definition handle_clear_canvas ::
  "Server \<Rightarrow> Session \<Rightarrow> int \<Rightarrow> string \<Rightarrow> Server \<times> Emit list" where
  "handle_clear_canvas st sess now uuid =
     (let operation = new_operation uuid (sess_userId sess) Clear now;
          mgr1 = addOperation (drawingState st) (currentRoom sess) operation;
          (state, mgr2) = getRoomState mgr1 (currentRoom sess);
          mgr3 = mgr2(currentRoom sess \<mapsto> state\<lparr>operations := [operation]\<rparr>)
      in (st\<lparr>drawingState := mgr3\<rparr>,
          [(ToRoom (currentRoom sess), ClearCanvasEv operation)]))"

definition handle_undo :: "Server \<Rightarrow> Session \<Rightarrow> Server \<times> Emit list" where
  "handle_undo st sess =
     (let (undoneOp, mgr) = undoOperation (drawingState st) (currentRoom sess) (Some (sess_userId sess))
      in (st\<lparr>drawingState := mgr\<rparr>,
          (case undoneOp of
             Some e \<Rightarrow> [(ToRoom (currentRoom sess), UndoEv (op_id e) (userId e))]
           | None \<Rightarrow> [])))"

subsection \<open>The client mirror (\<^verbatim>\<open>CanvasManager\<close> in \<^verbatim>\<open>main.ts\<close>)\<close>

text \<open>
  The fields of \<^verbatim>\<open>CanvasManager\<close> that hold operations. The pixels of the canvas are
  not modelled: \<^verbatim>\<open>redrawCanvas\<close> clears it and paints \<^verbatim>\<open>this.operations\<close> in order.
\<close>

record CanvasManager =
  cm_operations :: "DrawingOperation list"
  undoStack :: "DrawingOperation list"
  remoteOperations :: "string \<rightharpoonup> DrawingOperation"
  currentOperation :: "DrawingOperation option"
  isDrawing :: bool

definition copyOperation :: "DrawingOperation \<Rightarrow> DrawingOperation" where
  "copyOperation operation =
     (let c0 = operation;
          c1 = (case path operation of Some p \<Rightarrow> c0\<lparr>path := Some p\<rparr> | None \<Rightarrow> c0);
          c2 = (case startPoint operation of Some p \<Rightarrow> c1\<lparr>startPoint := Some p\<rparr> | None \<Rightarrow> c1);
          c3 = (case endPoint operation of Some p \<Rightarrow> c2\<lparr>endPoint := Some p\<rparr> | None \<Rightarrow> c2)
      in c3)"

text \<open>
  One iteration of the loop of \<^verbatim>\<open>loadOperations\<close>; an element of the received array may be
  \<^verbatim>\<open>null\<close> (\<^const>\<open>None\<close>) or have a falsy id.
\<close>

definition load_step :: "CanvasManager \<Rightarrow> DrawingOperation option \<Rightarrow> CanvasManager" where
  "load_step cm e =
     (case e of
        None \<Rightarrow> cm
      | Some opn \<Rightarrow>
          if op_id opn \<noteq> []
          then let operationCopy = copyOperation opn
               in cm\<lparr>cm_operations := cm_operations cm @ [operationCopy],
                     remoteOperations := (remoteOperations cm)(op_id opn \<mapsto> operationCopy)\<rparr>
          else cm)"

definition loadOperations :: "CanvasManager \<Rightarrow> DrawingOperation option list \<Rightarrow> CanvasManager" where
  "loadOperations cm ops =
     foldl load_step (cm\<lparr>cm_operations := [], undoStack := [], remoteOperations := Map.empty\<rparr>) ops"

subsection \<open>Sequences of appends, and example values\<close>

text \<open>A sequence of calls of \<^verbatim>\<open>addOperation\<close>, each with its room.\<close>

definition add_all ::
  "DrawingStateManager \<Rightarrow> (string \<times> DrawingOperation) list \<Rightarrow> DrawingStateManager" where
  "add_all mgr xs = foldl (\<lambda>m (r, e). addOperation m r e) mgr xs"

text \<open>Example values: a stroke with a given id and author, and a manager with one room.\<close>

definition ex_op :: "string \<Rightarrow> string \<Rightarrow> DrawingOperation" where
  "ex_op i u = new_operation i u Draw 0"

definition ex_mgr :: "DrawingOperation list \<Rightarrow> DrawingStateManager" where
  "ex_mgr ops = Map.empty(''room'' \<mapsto> \<lparr>operations = ops, users = []\<rparr>)"

definition ex_server :: "DrawingOperation list \<Rightarrow> Server" where
  "ex_server ops =
     \<lparr>drawingState = ex_mgr ops,
      roomManager = \<lparr>rooms = Map.empty(''room'' \<mapsto>
                        \<lparr>room_id = ''room'', room_name = ''Room room'', maxUsers = None,
                         createdAt = 0\<rparr>),
                     userColors = Map.empty, colorIndex = 0\<rparr>,
      members = (\<lambda>r. if r = ''room'' then {''u1'', ''u2''} else {})\<rparr>"

definition ex_session :: "string \<Rightarrow> Session" where
  "ex_session u =
     \<lparr>currentRoom = ''room'', sess_userId = u, userName = ''User '' @ u,
      userColor = ''#FF6B6B''\<rparr>"

text \<open>The state of a room as every method of the manager sees it.\<close>

definition room_view :: "DrawingStateManager \<Rightarrow> string \<Rightarrow> RoomState" where
  "room_view mgr roomId = fst (getRoomState mgr roomId)"

subsection \<open>Properties of the operation log\<close>

lemma getOperations_alt:
  "getOperations mgr r = (case mgr r of None \<Rightarrow> [] | Some s \<Rightarrow> operations s)"
  by (simp add: getOperations_def getRoomState_def empty_room_def split: option.splits)

lemma getOperations_getRoomState:
  "getOperations (snd (getRoomState mgr r)) r' = getOperations mgr r'"
  by (simp add: getOperations_alt getRoomState_def empty_room_def split: option.splits)

lemma getOperations_upd:
  "getOperations (mgr(r \<mapsto> s)) r' = (if r' = r then operations s else getOperations mgr r')"
  by (simp add: getOperations_alt)

lemma getOperations_addOperation:
  "getOperations (addOperation mgr r operation) r' =
     (if r' = r
      then (if length (getOperations mgr r) \<ge> MAX_OPERATIONS
            then tl (getOperations mgr r @ [operation])
            else getOperations mgr r @ [operation])
      else getOperations mgr r')"
  by (auto simp: addOperation_def getOperations_alt getRoomState_def empty_room_def Let_def
      split: option.splits)

lemma userId_ex_op [simp]: "userId (ex_op i u) = u"
  by (simp add: ex_op_def new_operation_def)

lemma getOperations_ex_mgr [simp]:
  "getOperations (ex_mgr ops) r = (if r = ''room'' then ops else [])"
  by (simp add: getOperations_alt ex_mgr_def)

lemma undo_scan_step:
  "index \<ge> 0 \<and> userId (ops ! nat index) \<noteq> u \<Longrightarrow> undo_scan ops u index = undo_scan ops u (index - 1)"
  by (subst undo_scan.simps) simp

lemma undo_scan_stop:
  "\<not> (index \<ge> 0 \<and> userId (ops ! nat index) \<noteq> u) \<Longrightarrow> undo_scan ops u index = index"
  by (subst undo_scan.simps) auto

lemma undo_scan_neg [simp]: "index < 0 \<Longrightarrow> undo_scan ops u index = index"
  by (simp add: undo_scan_stop)

lemma undo_scan_bounds:
  "- 1 \<le> i \<Longrightarrow> - 1 \<le> undo_scan ops u i \<and> undo_scan ops u i \<le> i"
proof (induction ops u i rule: undo_scan.induct)
  case (1 ops u index)
  show ?case
  proof (cases "index \<ge> 0 \<and> userId (ops ! nat index) \<noteq> u")
    case True
    with 1 show ?thesis by (simp add: undo_scan_step)
  next
    case False
    with 1(2) show ?thesis by (simp add: undo_scan_stop)
  qed
qed

lemma undo_scan_hit:
  "0 \<le> undo_scan ops u i \<Longrightarrow> userId (ops ! nat (undo_scan ops u i)) = u"
proof (induction ops u i rule: undo_scan.induct)
  case (1 ops u index)
  show ?case
  proof (cases "index \<ge> 0 \<and> userId (ops ! nat index) \<noteq> u")
    case True
    with 1 show ?thesis by (simp add: undo_scan_step)
  next
    case False
    with 1(2) show ?thesis by (simp add: undo_scan_stop)
  qed
qed

lemma undo_scan_skipped:
  "undo_scan ops u i < k \<Longrightarrow> k \<le> i \<Longrightarrow> userId (ops ! nat k) \<noteq> u"
proof (induction ops u i rule: undo_scan.induct)
  case (1 ops u index)
  show ?case
  proof (cases "index \<ge> 0 \<and> userId (ops ! nat index) \<noteq> u")
    case True
    show ?thesis
    proof (cases "k = index")
      case True
      with \<open>index \<ge> 0 \<and> userId (ops ! nat index) \<noteq> u\<close> show ?thesis by simp
    next
      case False
      with 1 True show ?thesis by (simp add: undo_scan_step)
    qed
  next
    case False
    with 1(2,3) show ?thesis by (simp add: undo_scan_stop)
  qed
qed


lemma undoOperation_result:
  "fst (undoOperation mgr r uid) =
     (if undo_index (getOperations mgr r) uid < 0 then None
      else Some (getOperations mgr r ! nat (undo_index (getOperations mgr r) uid)))"
  by (auto simp: undoOperation_def undo_index_def getOperations_alt getRoomState_def empty_room_def
      Let_def split: option.splits)

lemma undoOperation_log:
  "getOperations (snd (undoOperation mgr r uid)) r' =
     (if r' = r \<and> 0 \<le> undo_index (getOperations mgr r) uid
      then take (nat (undo_index (getOperations mgr r) uid)) (getOperations mgr r)
           @ drop (Suc (nat (undo_index (getOperations mgr r) uid))) (getOperations mgr r)
      else getOperations mgr r')"
  by (auto simp: undoOperation_def undo_index_def getOperations_alt getRoomState_def empty_room_def
      Let_def split: option.splits)


lemma undo_scan_none:
  assumes "undo_scan ops u (int (length ops) - 1) < 0"
  shows "\<forall>e\<in>set ops. userId e \<noteq> u"
proof
  fix e assume "e \<in> set ops"
  then obtain k where k: "k < length ops" "ops ! k = e"
    by (auto simp: in_set_conv_nth)
  from assms k(1) have "userId (ops ! nat (int k)) \<noteq> u"
    by (intro undo_scan_skipped [where i = "int (length ops) - 1"]) auto
  with k(2) show "userId e \<noteq> u" by simp
qed

lemma undo_scan_some:
  assumes "0 \<le> undo_scan ops u (int (length ops) - 1)"
  defines "j \<equiv> nat (undo_scan ops u (int (length ops) - 1))"
  shows "j < length ops" and "userId (ops ! j) = u"
    and "ops = take j ops @ ops ! j # drop (Suc j) ops"
    and "\<forall>e\<in>set (drop (Suc j) ops). userId e \<noteq> u"
proof -
  have b: "undo_scan ops u (int (length ops) - 1) \<le> int (length ops) - 1"
    using undo_scan_bounds [of "int (length ops) - 1" ops u] by simp
  with assms(1) show lt: "j < length ops" by (simp add: j_def)
  from assms(1) show "userId (ops ! j) = u" unfolding j_def by (rule undo_scan_hit)
  from lt show "ops = take j ops @ ops ! j # drop (Suc j) ops"
    by (simp add: id_take_nth_drop [symmetric])
  show "\<forall>e\<in>set (drop (Suc j) ops). userId e \<noteq> u"
  proof
    fix e assume "e \<in> set (drop (Suc j) ops)"
    then obtain k where k: "k < length ops - Suc j" "ops ! (Suc j + k) = e"
      by (auto simp: in_set_conv_nth)
    have "userId (ops ! nat (int (Suc j + k))) \<noteq> u"
      using assms(1) k(1) by (intro undo_scan_skipped [where i = "int (length ops) - 1"]) (auto simp: j_def)
    then have "userId (ops ! (Suc j + k)) \<noteq> u" by (metis nat_int)
    with k(2) show "userId e \<noteq> u" by simp
  qed
qed

text \<open>
  Claim C1. For every room log and every user \<open>u\<close> (a user id is the \<^verbatim>\<open>socket.id\<close> of a
  connection, which is never empty: the hypothesis),
  \<^verbatim>\<open>undoOperation(room, u)\<close> either returns \<^verbatim>\<open>null\<close>, and then no operation of the log is
  authored by \<open>u\<close> and the log is unchanged; or it returns an operation authored by \<open>u\<close>
  with no later operation of \<open>u\<close> behind it in the log (the most recent one, found from the
  tail), and the new log is the old one without that single entry. In both cases the
  operations of the other users stay, in their order, and the other rooms are untouched.
\<close>

theorem undoOperation_by_user:
  assumes "u \<noteq> []"
  shows "(fst (undoOperation mgr r (Some u)) = None \<longrightarrow>
            (\<forall>e\<in>set (getOperations mgr r). userId e \<noteq> u) \<and>
            getOperations (snd (undoOperation mgr r (Some u))) r = getOperations mgr r)
       \<and> (\<forall>removed. fst (undoOperation mgr r (Some u)) = Some removed \<longrightarrow>
            (\<exists>pre post. getOperations mgr r = pre @ removed # post \<and> userId removed = u \<and>
               (\<forall>e\<in>set post. userId e \<noteq> u) \<and>
               getOperations (snd (undoOperation mgr r (Some u))) r = pre @ post))
       \<and> filter (\<lambda>e. userId e \<noteq> u) (getOperations (snd (undoOperation mgr r (Some u))) r)
           = filter (\<lambda>e. userId e \<noteq> u) (getOperations mgr r)
       \<and> (\<forall>r'. r' \<noteq> r \<longrightarrow>
            getOperations (snd (undoOperation mgr r (Some u))) r' = getOperations mgr r')"
proof -
  define ops where "ops = getOperations mgr r"
  define i where "i = undo_scan ops u (int (length ops) - 1)"
  have idx: "undo_index ops (Some u) = i"
    using assms by (simp add: undo_index_def i_def)
  have res: "fst (undoOperation mgr r (Some u)) = (if i < 0 then None else Some (ops ! nat i))"
    by (simp add: undoOperation_result ops_def [symmetric] idx)
  have log: "getOperations (snd (undoOperation mgr r (Some u))) r =
      (if 0 \<le> i then take (nat i) ops @ drop (Suc (nat i)) ops else ops)"
    by (simp add: undoOperation_log ops_def [symmetric] idx)
  have other: "\<forall>r'. r' \<noteq> r \<longrightarrow>
      getOperations (snd (undoOperation mgr r (Some u))) r' = getOperations mgr r'"
    by (simp add: undoOperation_log)
  show ?thesis
  proof (cases "i < 0")
    case True
    then have "\<forall>e\<in>set ops. userId e \<noteq> u"
      unfolding i_def by (rule undo_scan_none)
    with True res log other show ?thesis
      by (simp add: ops_def [symmetric])
  next
    case False
    then have nn: "0 \<le> undo_scan ops u (int (length ops) - 1)" by (simp add: i_def)
    note s = undo_scan_some [OF nn, folded i_def]
    have split_ops: "ops = take (nat i) ops @ ops ! nat i # drop (Suc (nat i)) ops"
      by (rule s(3))
    have "filter (\<lambda>e. userId e \<noteq> u) ops =
        filter (\<lambda>e. userId e \<noteq> u) (take (nat i) ops @ ops ! nat i # drop (Suc (nat i)) ops)"
      using split_ops by simp
    also have "\<dots> = filter (\<lambda>e. userId e \<noteq> u) (take (nat i) ops @ drop (Suc (nat i)) ops)"
      using s(2) by simp
    finally have flt: "filter (\<lambda>e. userId e \<noteq> u) (take (nat i) ops @ drop (Suc (nat i)) ops)
        = filter (\<lambda>e. userId e \<noteq> u) ops" by simp
    have ex: "\<exists>pre post. ops = pre @ ops ! nat i # post \<and> userId (ops ! nat i) = u \<and>
               (\<forall>e\<in>set post. userId e \<noteq> u) \<and>
               take (nat i) ops @ drop (Suc (nat i)) ops = pre @ post"
      using split_ops s(2) s(4) by blast
    from False res log other flt ex show ?thesis
      by (simp add: ops_def [symmetric])
  qed
qed

text \<open>
  The example of the specification: on the log \<open>[A(u1), B(u2), C(u1)]\<close> the undo of
  \<open>u1\<close> returns \<open>C\<close> and leaves \<open>[A(u1), B(u2)]\<close>.
\<close>

theorem undoOperation_by_user_witness:
  "''u1'' \<noteq> [] \<and>
   fst (undoOperation (ex_mgr [ex_op ''A'' ''u1'', ex_op ''B'' ''u2'', ex_op ''C'' ''u1''])
          ''room'' (Some ''u1'')) = Some (ex_op ''C'' ''u1'') \<and>
   getOperations
     (snd (undoOperation (ex_mgr [ex_op ''A'' ''u1'', ex_op ''B'' ''u2'', ex_op ''C'' ''u1''])
          ''room'' (Some ''u1''))) ''room'' = [ex_op ''A'' ''u1'', ex_op ''B'' ''u2'']"
  using undoOperation_by_user
    [of "''u1''" "ex_mgr [ex_op ''A'' ''u1'', ex_op ''B'' ''u2'', ex_op ''C'' ''u1'']" "''room''"]
  by (simp add: undoOperation_result undoOperation_log undo_index_def undo_scan.simps)

text \<open>
  The empty string is no user id: \<^verbatim>\<open>if (userId)\<close> is false on it, and the call takes the
  path of the omitted argument.
\<close>

lemma undoOperation_empty_string:
  "undoOperation mgr r (Some []) = undoOperation mgr r None"
  by (simp add: undoOperation_def Let_def split_beta)

text \<open>
  Claim C9. With the \<^verbatim>\<open>userId\<close> argument omitted, \<^verbatim>\<open>undoOperation\<close> on a non-empty log
  returns its last operation, whoever authored it, and removes it; on an empty log it
  returns \<^verbatim>\<open>null\<close>. The other rooms are untouched.
\<close>

theorem undoOperation_global:
  "(getOperations mgr r = [] \<longrightarrow>
      fst (undoOperation mgr r None) = None \<and>
      getOperations (snd (undoOperation mgr r None)) r = [])
   \<and> (getOperations mgr r \<noteq> [] \<longrightarrow>
      fst (undoOperation mgr r None) = Some (last (getOperations mgr r)) \<and>
      getOperations (snd (undoOperation mgr r None)) r = butlast (getOperations mgr r))
   \<and> (\<forall>r'. r' \<noteq> r \<longrightarrow>
      getOperations (snd (undoOperation mgr r None)) r' = getOperations mgr r')"
proof -
  define ops where "ops = getOperations mgr r"
  have idx: "undo_index ops None = int (length ops) - 1"
    by (simp add: undo_index_def)
  have "ops \<noteq> [] \<Longrightarrow> nat (int (length ops) - 1) = length ops - 1"
    by (simp add: nat_diff_distrib)
  then show ?thesis
    by (cases "ops = []")
      (simp_all add: undoOperation_result undoOperation_log ops_def [symmetric] undo_index_def
        last_conv_nth butlast_conv_take)
qed

theorem undoOperation_global_witness:
  "getOperations (ex_mgr [ex_op ''A'' ''u1'', ex_op ''B'' ''u2'']) ''room'' \<noteq> [] \<and>
   fst (undoOperation (ex_mgr [ex_op ''A'' ''u1'', ex_op ''B'' ''u2'']) ''room'' None)
     = Some (ex_op ''B'' ''u2'') \<and>
   getOperations (snd (undoOperation (ex_mgr [ex_op ''A'' ''u1'', ex_op ''B'' ''u2'']) ''room'' None))
     ''room'' = [ex_op ''A'' ''u1''] \<and>
   fst (undoOperation (ex_mgr []) ''room'' None) = None"
  using undoOperation_global [of "ex_mgr [ex_op ''A'' ''u1'', ex_op ''B'' ''u2'']" "''room''"]
    undoOperation_global [of "ex_mgr []" "''room''"]
  by simp

subsection \<open>The bound on the log\<close>

lemma length_addOperation:
  "length (getOperations mgr r') \<le> 500 \<Longrightarrow>
   length (getOperations (addOperation mgr r e) r') \<le> 500"
  by (auto simp: getOperations_addOperation MAX_OPERATIONS_def)

lemma add_all_bounded:
  "\<forall>r. length (getOperations mgr r) \<le> 500 \<Longrightarrow>
   \<forall>r. length (getOperations (add_all mgr xs) r) \<le> 500"
proof (induction xs arbitrary: mgr)
  case Nil
  then show ?case by (simp add: add_all_def)
next
  case (Cons x xs)
  obtain r e where x: "x = (r, e)" by (cases x)
  have "\<forall>r'. length (getOperations (addOperation mgr r e) r') \<le> 500"
    using Cons.prems by (simp add: length_addOperation)
  then have "\<forall>r'. length (getOperations (add_all (addOperation mgr r e) xs) r') \<le> 500"
    by (rule Cons.IH)
  then show ?case by (simp add: add_all_def x)
qed

lemma addOperation_below_limit:
  "length (getOperations mgr r) < 500 \<Longrightarrow>
   getOperations (addOperation mgr r e) r = getOperations mgr r @ [e]"
  by (simp add: getOperations_addOperation MAX_OPERATIONS_def)

text \<open>
  Claim C2. Starting from a server with no room, and more generally from any state in which
  every log holds at most 500 operations, every log holds at most 500 operations after any
  sequence of appends; and an append to a log of exactly 500 operations drops the operation
  at index 0, whoever authored it, keeps the others in order and puts the new one last.
\<close>

theorem addOperation_bounded:
  "(\<forall>r'. length (getOperations (add_all Map.empty xs) r') \<le> 500)
   \<and> ((\<forall>r'. length (getOperations mgr r') \<le> 500) \<longrightarrow>
        (\<forall>r'. length (getOperations (add_all mgr xs) r') \<le> 500))
   \<and> (length (getOperations mgr r) = 500 \<longrightarrow>
        getOperations (addOperation mgr r e) r = tl (getOperations mgr r) @ [e] \<and>
        length (getOperations (addOperation mgr r e) r) = 500)"
proof -
  have "\<forall>r'. length (getOperations (add_all Map.empty xs) r') \<le> 500"
    by (rule add_all_bounded) (simp add: getOperations_alt)
  moreover have "(\<forall>r'. length (getOperations mgr r') \<le> 500) \<longrightarrow>
        (\<forall>r'. length (getOperations (add_all mgr xs) r') \<le> 500)"
    using add_all_bounded by blast
  moreover have "length (getOperations mgr r) = 500 \<longrightarrow>
        getOperations (addOperation mgr r e) r = tl (getOperations mgr r) @ [e] \<and>
        length (getOperations (addOperation mgr r e) r) = 500"
    by (cases "getOperations mgr r") (auto simp: getOperations_addOperation MAX_OPERATIONS_def)
  ultimately show ?thesis by blast
qed

theorem addOperation_bounded_witness:
  "(\<forall>r'. length (getOperations (ex_mgr (ex_op ''first'' ''u1'' # replicate 499 (ex_op ''A'' ''u2''))) r')
       \<le> 500)
   \<and> length (getOperations (ex_mgr (ex_op ''first'' ''u1'' # replicate 499 (ex_op ''A'' ''u2''))) ''room'')
       = 500
   \<and> getOperations
       (addOperation (ex_mgr (ex_op ''first'' ''u1'' # replicate 499 (ex_op ''A'' ''u2'')))
          ''room'' (ex_op ''new'' ''u3'')) ''room''
       = replicate 499 (ex_op ''A'' ''u2'') @ [ex_op ''new'' ''u3'']
   \<and> (\<forall>r'. length (getOperations
         (add_all (ex_mgr (ex_op ''first'' ''u1'' # replicate 499 (ex_op ''A'' ''u2'')))
            [(''room'', ex_op ''new'' ''u3'')]) r') \<le> 500)"
  using addOperation_bounded
    [of "[(''room'', ex_op ''new'' ''u3'')]"
        "ex_mgr (ex_op ''first'' ''u1'' # replicate 499 (ex_op ''A'' ''u2''))"
        "''room''" "ex_op ''new'' ''u3''"]
  by simp

subsection \<open>Rejected joins, clearing and empty undo\<close>

lemma room_view_alt:
  "room_view mgr r = (case mgr r of None \<Rightarrow> empty_room | Some s \<Rightarrow> s)"
  by (simp add: room_view_def getRoomState_def split: option.splits)

lemma room_view_getRoomState:
  "room_view (snd (getRoomState mgr r)) r' = room_view mgr r'"
  by (simp add: room_view_alt getRoomState_def split: option.splits)

lemma getRoomState_existing:
  "mgr r \<noteq> None \<Longrightarrow> snd (getRoomState mgr r) = mgr"
  by (auto simp: getRoomState_def)

lemma getOperations_room_view: "getOperations mgr r = operations (room_view mgr r)"
  by (simp add: getOperations_def room_view_def)

lemma filter_room_char: "(filter room_char s \<noteq> s) = (\<exists>c\<in>set s. \<not> room_char c)"
  by (auto simp: filter_id_conv)

text \<open>
  Claim C5. A \<^verbatim>\<open>join-room\<close> message without payload, or whose \<^verbatim>\<open>roomId\<close> is absent, longer
  than 50 characters, or contains a character outside \<^verbatim>\<open>[A-Za-z0-9_-]\<close>, gets exactly one
  emit, an error event to the sender alone; the server state (both managers and the room
  membership: no room created) and the session (no room switch) are returned unchanged.
\<close>

theorem join_room_rejects_invalid:
  assumes "data = None \<or> jr_roomId (the data) = None
           \<or> length (the (jr_roomId (the data))) > 50
           \<or> (\<exists>c\<in>set (the (jr_roomId (the data))). \<not> room_char c)"
  shows "\<exists>msg. handle_join_room st sess now data = (st, sess, [(ToSender, ErrorEv msg)])
           \<and> recipients (members st) (sess_userId sess) ToSender = {sess_userId sess}"
proof (cases data)
  case None
  then show ?thesis by (simp add: handle_join_room_def)
next
  case (Some d)
  with assms have inv: "jr_roomId d = None \<or> length (the (jr_roomId d)) > 50
           \<or> (\<exists>c\<in>set (the (jr_roomId d)). \<not> room_char c)" by simp
  show ?thesis
  proof (cases "\<not> truthy_str (jr_roomId d) \<or> length (the (jr_roomId d)) > 50")
    case True
    with Some show ?thesis by (simp add: handle_join_room_def)
  next
    case False
    then obtain rid where rid: "jr_roomId d = Some rid" "rid \<noteq> []" "length rid \<le> 50"
      by (cases "jr_roomId d") auto
    with inv have "filter room_char rid \<noteq> rid"
      by (simp add: filter_room_char)
    with Some rid show ?thesis
      by (simp add: handle_join_room_def Let_def)
  qed
qed

theorem join_room_rejects_invalid_witness:
  "(\<exists>c\<in>set ''My Room!''. \<not> room_char c) \<and>
   handle_join_room (ex_server []) (ex_session ''u1'') 7
       (Some \<lparr>jr_roomId = Some ''My Room!'', jr_userName = None\<rparr>)
     = (ex_server [], ex_session ''u1'', [(ToSender, ErrorEv ''Room ID contains invalid characters'')])"
  using join_room_rejects_invalid
    [of "Some \<lparr>jr_roomId = Some ''My Room!'', jr_userName = None\<rparr>" "ex_server []"
        "ex_session ''u1''" 7]
  by (simp add: handle_join_room_def room_char_def)

text \<open>
  Claim C6. Whatever the log of the sender's room held, after \<^verbatim>\<open>clear-canvas\<close> it holds
  exactly one operation: the marker of type \<^verbatim>\<open>clear\<close> with the sender's user id and the
  server's timestamp. The only emit is that marker to the whole room
  (\<^verbatim>\<open>io.to(currentRoom)\<close>): its recipients are all the members of the room, the sender
  among them when the sender has joined the room.
\<close>

theorem clear_canvas_collapses_log:
  "getOperations (drawingState (fst (handle_clear_canvas st sess now uuid))) (currentRoom sess)
     = [new_operation uuid (sess_userId sess) Clear now]
   \<and> op_type (new_operation uuid (sess_userId sess) Clear now) = Clear
   \<and> userId (new_operation uuid (sess_userId sess) Clear now) = sess_userId sess
   \<and> timestamp (new_operation uuid (sess_userId sess) Clear now) = now
   \<and> snd (handle_clear_canvas st sess now uuid)
       = [(ToRoom (currentRoom sess), ClearCanvasEv (new_operation uuid (sess_userId sess) Clear now))]
   \<and> recipients (members (fst (handle_clear_canvas st sess now uuid))) (sess_userId sess)
        (ToRoom (currentRoom sess)) = members st (currentRoom sess)
   \<and> (sess_userId sess \<in> members st (currentRoom sess) \<longrightarrow>
        sess_userId sess \<in> recipients (members (fst (handle_clear_canvas st sess now uuid)))
          (sess_userId sess) (ToRoom (currentRoom sess)))"
  by (simp add: handle_clear_canvas_def Let_def split_beta getOperations_upd new_operation_def)

theorem clear_canvas_collapses_log_witness:
  "''u1'' \<in> members (ex_server [ex_op ''A'' ''u1'', ex_op ''B'' ''u2'']) ''room'' \<and>
   getOperations (drawingState (fst (handle_clear_canvas
       (ex_server [ex_op ''A'' ''u1'', ex_op ''B'' ''u2'']) (ex_session ''u1'') 7 ''id1''))) ''room''
     = [new_operation ''id1'' ''u1'' Clear 7] \<and>
   ''u1'' \<in> recipients (members (fst (handle_clear_canvas
       (ex_server [ex_op ''A'' ''u1'', ex_op ''B'' ''u2'']) (ex_session ''u1'') 7 ''id1''))) ''u1''
       (ToRoom ''room'')"
  using clear_canvas_collapses_log
    [of "ex_server [ex_op ''A'' ''u1'', ex_op ''B'' ''u2'']" "ex_session ''u1''" 7 "''id1''"]
  by (simp add: ex_server_def ex_session_def)

lemma handle_undo_fst:
  "fst (handle_undo st sess) =
     st\<lparr>drawingState := snd (undoOperation (drawingState st) (currentRoom sess) (Some (sess_userId sess)))\<rparr>"
  by (simp add: handle_undo_def split_beta)

lemma handle_undo_snd:
  "snd (handle_undo st sess) =
     (case fst (undoOperation (drawingState st) (currentRoom sess) (Some (sess_userId sess))) of
        Some e \<Rightarrow> [(ToRoom (currentRoom sess), UndoEv (op_id e) (userId e))]
      | None \<Rightarrow> [])"
  by (simp add: handle_undo_def split_beta)

lemma undoOperation_None_state:
  "fst (undoOperation mgr r uid) = None \<Longrightarrow>
   snd (undoOperation mgr r uid) = snd (getRoomState mgr r)"
  by (auto simp: undoOperation_def Let_def split_beta split: if_splits)

lemma undo_index_no_author:
  assumes "u \<noteq> [] \<or> ops = []" and "\<forall>e\<in>set ops. userId e \<noteq> u"
  shows "undo_index ops (Some u) < 0"
proof (cases "ops = []")
  case True
  then show ?thesis by (simp add: undo_index_def)
next
  case False
  with assms(1) have u: "u \<noteq> []" by simp
  show ?thesis
  proof (rule ccontr)
    assume "\<not> undo_index ops (Some u) < 0"
    with u have nn: "0 \<le> undo_scan ops u (int (length ops) - 1)"
      by (simp add: undo_index_def)
    from undo_scan_some(1,2) [OF nn] assms(2) show False
      by (metis nth_mem)
  qed
qed

text \<open>
  Claim C7. When no operation of the log of the sender's room is authored by the sender
  (the empty log included), the sender's \<^verbatim>\<open>undo\<close> gets \<^verbatim>\<open>null\<close> from
  \<^verbatim>\<open>undoOperation\<close>, emits nothing, and leaves every room (log and users), the room
  manager and the membership as they were; the server state is unchanged outright when the
  room's state object exists. The sender's id is \<^verbatim>\<open>socket.id\<close>, which the transport never
  leaves empty: the first hypothesis.
\<close>

theorem undo_nothing_to_undo:
  assumes "sess_userId sess \<noteq> [] \<or> getOperations (drawingState st) (currentRoom sess) = []"
    and "\<forall>e\<in>set (getOperations (drawingState st) (currentRoom sess)). userId e \<noteq> sess_userId sess"
  shows "fst (undoOperation (drawingState st) (currentRoom sess) (Some (sess_userId sess))) = None
       \<and> snd (handle_undo st sess) = []
       \<and> (\<forall>r. room_view (drawingState (fst (handle_undo st sess))) r = room_view (drawingState st) r)
       \<and> (\<forall>r. getOperations (drawingState (fst (handle_undo st sess))) r
               = getOperations (drawingState st) r)
       \<and> roomManager (fst (handle_undo st sess)) = roomManager st
       \<and> members (fst (handle_undo st sess)) = members st
       \<and> (drawingState st (currentRoom sess) \<noteq> None \<longrightarrow> fst (handle_undo st sess) = st)"
proof -
  have neg: "undo_index (getOperations (drawingState st) (currentRoom sess)) (Some (sess_userId sess)) < 0"
    using assms by (rule undo_index_no_author)
  then have none: "fst (undoOperation (drawingState st) (currentRoom sess) (Some (sess_userId sess))) = None"
    by (simp add: undoOperation_result)
  then have mgr: "snd (undoOperation (drawingState st) (currentRoom sess) (Some (sess_userId sess)))
      = snd (getRoomState (drawingState st) (currentRoom sess))"
    by (rule undoOperation_None_state)
  show ?thesis
    using none mgr
    by (simp add: handle_undo_fst handle_undo_snd room_view_getRoomState
        getOperations_getRoomState getRoomState_existing)
qed

theorem undo_nothing_to_undo_witness:
  "''u3'' \<noteq> [] \<and>
   userId (ex_op ''A'' ''u1'') \<noteq> ''u3'' \<and> userId (ex_op ''B'' ''u2'') \<noteq> ''u3'' \<and>
   getOperations (drawingState (ex_server [ex_op ''A'' ''u1'', ex_op ''B'' ''u2''])) ''room''
     = [ex_op ''A'' ''u1'', ex_op ''B'' ''u2''] \<and>
   handle_undo (ex_server [ex_op ''A'' ''u1'', ex_op ''B'' ''u2'']) (ex_session ''u3'')
     = (ex_server [ex_op ''A'' ''u1'', ex_op ''B'' ''u2''], [])"
proof -
  let ?st = "ex_server [ex_op ''A'' ''u1'', ex_op ''B'' ''u2'']"
  let ?sess = "ex_session ''u3''"
  have h1: "sess_userId ?sess \<noteq> [] \<or> getOperations (drawingState ?st) (currentRoom ?sess) = []"
    by (simp add: ex_session_def)
  have h2: "\<forall>e\<in>set (getOperations (drawingState ?st) (currentRoom ?sess)).
      userId e \<noteq> sess_userId ?sess"
    by (simp add: ex_server_def ex_session_def)
  have ex: "drawingState ?st (currentRoom ?sess) \<noteq> None"
    by (simp add: ex_server_def ex_session_def ex_mgr_def)
  from undo_nothing_to_undo [OF h1 h2] ex
  have "snd (handle_undo ?st ?sess) = []" and "fst (handle_undo ?st ?sess) = ?st"
    by blast+
  then have "handle_undo ?st ?sess = (?st, [])"
    by (simp add: prod_eq_iff)
  then show ?thesis
    by (simp add: ex_server_def)
qed

subsection \<open>Progress on a stroke of another user\<close>

lemma handle_draw_progress_dropped:
  assumes "find (\<lambda>e. op_id e = oid) (getOperations (drawingState st) (currentRoom sess)) = None
           \<or> (\<exists>e. find (\<lambda>e. op_id e = oid) (getOperations (drawingState st) (currentRoom sess)) = Some e
                 \<and> userId e \<noteq> sess_userId sess)"
    and "dp_operationId d = Some oid"
  shows "handle_draw_progress st sess (Some d) = (st, [])
       \<or> handle_draw_progress st sess (Some d)
           = (st\<lparr>drawingState := snd (getRoomState (drawingState st) (currentRoom sess))\<rparr>, [])"
  using assms
  by (auto simp: handle_draw_progress_def getOperations_def Let_def split_beta
      split: option.splits)

text \<open>
  Claim C4. A \<^verbatim>\<open>draw-progress\<close> message whose \<^verbatim>\<open>operationId\<close> is found nowhere in the log of
  the sender's room, or is found (by \<^verbatim>\<open>find\<close>, the first operation with that id) on an
  operation of another user, emits nothing, neither a relay nor an error, and leaves every
  room (log, hence every path, and users), the room manager and the membership as they
  were; the server state is unchanged outright when the room's state object exists.
\<close>

theorem draw_progress_foreign_dropped:
  assumes "dp_operationId d = Some oid"
    and "find (\<lambda>e. op_id e = oid) (getOperations (drawingState st) (currentRoom sess)) = None
         \<or> (\<exists>e. find (\<lambda>e. op_id e = oid) (getOperations (drawingState st) (currentRoom sess)) = Some e
               \<and> userId e \<noteq> sess_userId sess)"
  shows "snd (handle_draw_progress st sess (Some d)) = []
       \<and> (\<forall>r. room_view (drawingState (fst (handle_draw_progress st sess (Some d)))) r
               = room_view (drawingState st) r)
       \<and> (\<forall>r. getOperations (drawingState (fst (handle_draw_progress st sess (Some d)))) r
               = getOperations (drawingState st) r)
       \<and> roomManager (fst (handle_draw_progress st sess (Some d))) = roomManager st
       \<and> members (fst (handle_draw_progress st sess (Some d))) = members st
       \<and> (drawingState st (currentRoom sess) \<noteq> None \<longrightarrow>
            fst (handle_draw_progress st sess (Some d)) = st)"
proof -
  from handle_draw_progress_dropped [OF assms(2) assms(1)]
  consider "handle_draw_progress st sess (Some d) = (st, [])"
    | "handle_draw_progress st sess (Some d)
           = (st\<lparr>drawingState := snd (getRoomState (drawingState st) (currentRoom sess))\<rparr>, [])"
    by blast
  then show ?thesis
  proof cases
    case 1
    then show ?thesis by simp
  next
    case 2
    then show ?thesis
      by (simp add: room_view_getRoomState getOperations_getRoomState getRoomState_existing)
  qed
qed

theorem draw_progress_foreign_dropped_witness:
  "find (\<lambda>e. op_id e = ''abc'') (getOperations (drawingState (ex_server [ex_op ''abc'' ''u1''])) ''room'')
     = Some (ex_op ''abc'' ''u1'') \<and>
   userId (ex_op ''abc'' ''u1'') \<noteq> ''u2'' \<and>
   handle_draw_progress (ex_server [ex_op ''abc'' ''u1'']) (ex_session ''u2'')
       (Some \<lparr>dp_operationId = Some ''abc'',
              dp_point = Some \<lparr>point_x = Some (Finite 3), point_y = Some (Finite 4), pressure = None\<rparr>\<rparr>)
     = (ex_server [ex_op ''abc'' ''u1''], [])"
proof -
  let ?st = "ex_server [ex_op ''abc'' ''u1'']"
  let ?sess = "ex_session ''u2''"
  let ?d = "\<lparr>dp_operationId = Some ''abc'',
              dp_point = Some \<lparr>point_x = Some (Finite 3), point_y = Some (Finite 4), pressure = None\<rparr>\<rparr>"
  have f: "find (\<lambda>e. op_id e = ''abc'') (getOperations (drawingState ?st) (currentRoom ?sess))
      = Some (ex_op ''abc'' ''u1'')"
    by (simp add: ex_server_def ex_session_def ex_op_def new_operation_def)
  have h1: "dp_operationId ?d = Some ''abc''" by simp
  have h2: "find (\<lambda>e. op_id e = ''abc'') (getOperations (drawingState ?st) (currentRoom ?sess)) = None
         \<or> (\<exists>e. find (\<lambda>e. op_id e = ''abc'') (getOperations (drawingState ?st) (currentRoom ?sess)) = Some e
               \<and> userId e \<noteq> sess_userId ?sess)"
    using f by (simp add: ex_session_def)
  have ex: "drawingState ?st (currentRoom ?sess) \<noteq> None"
    by (simp add: ex_server_def ex_session_def ex_mgr_def)
  from draw_progress_foreign_dropped [OF h1 h2] ex
  have "snd (handle_draw_progress ?st ?sess (Some ?d)) = []"
    and "fst (handle_draw_progress ?st ?sess (Some ?d)) = ?st"
    by blast+
  then have "handle_draw_progress ?st ?sess (Some ?d) = (?st, [])"
    by (simp add: prod_eq_iff)
  with f show ?thesis
    by (simp add: ex_session_def)
qed

text \<open>The owner's progress, for contrast: the point is appended and relayed.\<close>

lemma draw_progress_owner_example:
  "handle_draw_progress (ex_server [(ex_op ''abc'' ''u1'')\<lparr>path := Some []\<rparr>]) (ex_session ''u1'')
       (Some \<lparr>dp_operationId = Some ''abc'',
              dp_point = Some \<lparr>point_x = Some (Finite 3), point_y = Some (Finite (- 4)), pressure = None\<rparr>\<rparr>)
     = (ex_server [(ex_op ''abc'' ''u1'')
          \<lparr>path := Some [\<lparr>point_x = Some (Finite 3), point_y = Some (Finite 0), pressure = None\<rparr>]\<rparr>],
        [(ToOthers ''room'', DrawProgressEv ''abc''
            \<lparr>point_x = Some (Finite 3), point_y = Some (Finite 0), pressure = None\<rparr>)])"
  by (simp add: handle_draw_progress_def ex_server_def ex_session_def ex_mgr_def ex_op_def
      new_operation_def getRoomState_def Let_def)

subsection \<open>Line width of a stroke\<close>

lemma last_getOperations_addOperation:
  "last (getOperations (addOperation mgr r e) r) = e"
  by (cases "getOperations mgr r") (auto simp: getOperations_addOperation MAX_OPERATIONS_def)

lemma clamp_lineWidth:
  "math_max (Finite 1) (math_min (Finite 100)
      (case w of Some v \<Rightarrow> if truthy_num v then v else Finite 5 | None \<Rightarrow> Finite 5))
   = (case w of
        None \<Rightarrow> Finite 5
      | Some NaN \<Rightarrow> Finite 5
      | Some PosInf \<Rightarrow> Finite 100
      | Some NegInf \<Rightarrow> Finite 1
      | Some (Finite v) \<Rightarrow> if v = 0 then Finite 5 else Finite (max 1 (min 100 v)))"
  by (simp split: option.splits jsnum.splits)

text \<open>
  Claim C10. For an accepted \<^verbatim>\<open>draw-start\<close> message (its point has two numeric
  coordinates), the operation relayed to the other members is the one stored last in the
  log, and its \<^verbatim>\<open>lineWidth\<close> is 5 when the field is missing, 0 or NaN (falsy), and otherwise
  the field clamped into \<open>[1, 100]\<close>: \<open>max 1 (min 100 w)\<close> for a finite \<open>w\<close>, 100 for
  \<open>+\<infinity>\<close>, 1 for \<open>-\<infinity>\<close>.
\<close>

theorem draw_start_lineWidth:
  assumes "ds_point d = Some p" and "point_x p = Some px" and "point_y p = Some py"
  shows "\<exists>operation.
           snd (handle_draw_start st sess now uuid (Some d))
             = [(ToOthers (currentRoom sess), DrawStartEv operation)]
         \<and> last (getOperations (drawingState (fst (handle_draw_start st sess now uuid (Some d))))
              (currentRoom sess)) = operation
         \<and> lineWidth operation = Some
             (case ds_lineWidth d of
                None \<Rightarrow> Finite 5
              | Some NaN \<Rightarrow> Finite 5
              | Some PosInf \<Rightarrow> Finite 100
              | Some NegInf \<Rightarrow> Finite 1
              | Some (Finite w) \<Rightarrow> if w = 0 then Finite 5 else Finite (max 1 (min 100 w)))"
  using assms
  by (simp add: handle_draw_start_def Let_def last_getOperations_addOperation clamp_lineWidth
      del: math_max.simps math_min.simps)


theorem draw_start_lineWidth_witness:
  "lineWidth (last (getOperations (drawingState (fst (handle_draw_start (ex_server []) (ex_session ''u1'') 7 ''id1''
      (Some \<lparr>ds_point = Some \<lparr>point_x = Some (Finite 3), point_y = Some (Finite 4), pressure = None\<rparr>,
             ds_color = Some ''#112233'', ds_lineWidth = Some (Finite 500),
             ds_operationId = Some ''abc''\<rparr>)))) ''room'')) = Some (Finite 100)
   \<and> lineWidth (last (getOperations (drawingState (fst (handle_draw_start (ex_server []) (ex_session ''u1'') 7 ''id1''
      (Some \<lparr>ds_point = Some \<lparr>point_x = Some (Finite 3), point_y = Some (Finite 4), pressure = None\<rparr>,
             ds_color = Some ''#112233'', ds_lineWidth = Some (Finite 0),
             ds_operationId = Some ''abc''\<rparr>)))) ''room'')) = Some (Finite 5)"
  using draw_start_lineWidth
    [of "\<lparr>ds_point = Some \<lparr>point_x = Some (Finite 3), point_y = Some (Finite 4), pressure = None\<rparr>,
             ds_color = Some ''#112233'', ds_lineWidth = Some (Finite 500),
             ds_operationId = Some ''abc''\<rparr>"
        "\<lparr>point_x = Some (Finite 3), point_y = Some (Finite 4), pressure = None\<rparr>"
        "Finite 3" "Finite 4" "ex_server []" "ex_session ''u1''" 7 "''id1''"]
    draw_start_lineWidth
    [of "\<lparr>ds_point = Some \<lparr>point_x = Some (Finite 3), point_y = Some (Finite 4), pressure = None\<rparr>,
             ds_color = Some ''#112233'', ds_lineWidth = Some (Finite 0),
             ds_operationId = Some ''abc''\<rparr>"
        "\<lparr>point_x = Some (Finite 3), point_y = Some (Finite 4), pressure = None\<rparr>"
        "Finite 3" "Finite 4" "ex_server []" "ex_session ''u1''" 7 "''id1''"]
  by (simp add: ex_session_def)

subsection \<open>Clamping of coordinates\<close>

lemma math_max_zero_nonneg: "v \<noteq> NaN \<Longrightarrow> nonneg (math_max (Finite 0) v)"
  by (cases v) simp_all

lemma draw_start_clamps:
  assumes "ds_point d = Some p" and "point_x p = Some px" and "point_y p = Some py"
    and "px \<noteq> NaN" and "py \<noteq> NaN"
  shows "\<exists>operation q.
           snd (handle_draw_start st sess now uuid (Some d))
             = [(ToOthers (currentRoom sess), DrawStartEv operation)]
         \<and> last (getOperations (drawingState (fst (handle_draw_start st sess now uuid (Some d))))
              (currentRoom sess)) = operation
         \<and> path operation = Some [q]
         \<and> point_x q = Some (math_max (Finite 0) px) \<and> nonneg (math_max (Finite 0) px)
         \<and> point_y q = Some (math_max (Finite 0) py) \<and> nonneg (math_max (Finite 0) py)"
  using assms
  by (simp add: handle_draw_start_def Let_def last_getOperations_addOperation
      math_max_zero_nonneg new_operation_def del: math_max.simps math_min.simps)

text \<open>
  Claim C3 fails on the code. \<^verbatim>\<open>draw-start\<close> and \<^verbatim>\<open>draw-progress\<close> clamp with
  \<^verbatim>\<open>Math.max(0, \<dots>)\<close> (lemmas \<open>draw_start_clamps\<close> and
  \<open>draw_progress_owner_example\<close>), but
  \<^verbatim>\<open>erase\<close> puts \<^verbatim>\<open>data.point\<close> into the path as received: the point \<open>(-5, -3)\<close> is
  stored in the log and relayed to the other members with its negative coordinates.
\<close>

theorem erase_keeps_negative_coordinates:
  "handle_erase (ex_server []) (ex_session ''u1'') 7 ''id1''
     (Some \<lparr>er_point = \<lparr>point_x = Some (Finite (- 5)), point_y = Some (Finite (- 3)), pressure = None\<rparr>,
            er_radius = Some (Finite 10)\<rparr>)
   = Inr (ex_server
            [(new_operation ''id1'' ''u1'' Erase 7)
               \<lparr>path := Some [\<lparr>point_x = Some (Finite (- 5)), point_y = Some (Finite (- 3)),
                               pressure = None\<rparr>],
                eraserRadius := Some (Finite 10)\<rparr>],
          [(ToOthers ''room'', EraseEv
             ((new_operation ''id1'' ''u1'' Erase 7)
               \<lparr>path := Some [\<lparr>point_x = Some (Finite (- 5)), point_y = Some (Finite (- 3)),
                               pressure = None\<rparr>],
                eraserRadius := Some (Finite 10)\<rparr>))])
   \<and> \<not> nonneg (Finite (- 5)) \<and> \<not> nonneg (Finite (- 3))"
  by (simp add: handle_erase_def ex_server_def ex_session_def ex_mgr_def addOperation_def
      getRoomState_def MAX_OPERATIONS_def Let_def)

subsection \<open>Loading a snapshot into the client mirror\<close>

lemma copyOperation_same [simp]: "copyOperation e = e"
  by (simp add: copyOperation_def Let_def split: option.splits)

lemma load_step_fields [simp]:
  "undoStack (load_step cm e) = undoStack cm"
  "currentOperation (load_step cm e) = currentOperation cm"
  "isDrawing (load_step cm e) = isDrawing cm"
  "CanvasManager.more (load_step cm e) = CanvasManager.more cm"
  by (simp_all add: load_step_def Let_def split: option.splits)

lemma foldl_load_step_fields [simp]:
  "undoStack (foldl load_step cm es) = undoStack cm"
  "currentOperation (foldl load_step cm es) = currentOperation cm"
  "isDrawing (foldl load_step cm es) = isDrawing cm"
  "CanvasManager.more (foldl load_step cm es) = CanvasManager.more cm"
  by (induction es arbitrary: cm) simp_all

lemma foldl_load_step_operations:
  "cm_operations (foldl load_step cm es)
     = cm_operations cm @ map the (filter (\<lambda>e. e \<noteq> None \<and> op_id (the e) \<noteq> []) es)"
  by (induction es arbitrary: cm) (auto simp: load_step_def Let_def split: option.splits)

lemma foldl_load_step_cong:
  "undoStack a = undoStack b \<Longrightarrow> currentOperation a = currentOperation b \<Longrightarrow>
   isDrawing a = isDrawing b \<Longrightarrow> CanvasManager.more a = CanvasManager.more b \<Longrightarrow>
   cm_operations a = cm_operations b \<Longrightarrow> remoteOperations a = remoteOperations b \<Longrightarrow> a = b"
  by (cases a, cases b) simp

lemma loadOperations_reset:
  "(loadOperations cm es)\<lparr>cm_operations := [], undoStack := [], remoteOperations := Map.empty\<rparr>
     = cm\<lparr>cm_operations := [], undoStack := [], remoteOperations := Map.empty\<rparr>"
  by (rule foldl_load_step_cong) (simp_all add: loadOperations_def)

lemma loadOperations_operations:
  "cm_operations (loadOperations cm es)
     = map the (filter (\<lambda>e. e \<noteq> None \<and> op_id (the e) \<noteq> []) es)"
  by (simp add: loadOperations_def foldl_load_step_operations)

text \<open>
  Claim C8, as amended. Loading the same snapshot twice gives the same mirror as loading it
  once, and the mirror's list is then the snapshot's entries that pass \<^verbatim>\<open>op && op.id\<close>, one
  for each such entry and in the snapshot's order: a second load duplicates nothing. No id
  is compared (the list is emptied at the start of each load), so the ids of the mirror
  repeat exactly when those of the snapshot's entries do.
\<close>

theorem loadOperations_idempotent:
  "loadOperations (loadOperations cm snapshot) snapshot = loadOperations cm snapshot
   \<and> cm_operations (loadOperations (loadOperations cm snapshot) snapshot)
       = map the (filter (\<lambda>e. e \<noteq> None \<and> op_id (the e) \<noteq> []) snapshot)
   \<and> distinct (map op_id (cm_operations (loadOperations (loadOperations cm snapshot) snapshot)))
       = distinct (map op_id (map the (filter (\<lambda>e. e \<noteq> None \<and> op_id (the e) \<noteq> []) snapshot)))"
proof -
  have "loadOperations (loadOperations cm snapshot) snapshot
      = foldl load_step
          ((loadOperations cm snapshot)\<lparr>cm_operations := [], undoStack := [], remoteOperations := Map.empty\<rparr>)
          snapshot"
    by (simp add: loadOperations_def)
  also have "\<dots> = loadOperations cm snapshot"
    by (simp only: loadOperations_reset) (simp add: loadOperations_def)
  finally have idem: "loadOperations (loadOperations cm snapshot) snapshot = loadOperations cm snapshot" .
  have ops: "cm_operations (loadOperations cm snapshot)
       = map the (filter (\<lambda>e. e \<noteq> None \<and> op_id (the e) \<noteq> []) snapshot)"
    by (simp add: loadOperations_def foldl_load_step_operations)
  from idem ops show ?thesis by simp
qed

theorem loadOperations_idempotent_witness:
  "cm_operations (loadOperations (loadOperations
       \<lparr>cm_operations = [ex_op ''Z'' ''u9''], undoStack = [ex_op ''Y'' ''u9''],
        remoteOperations = Map.empty, currentOperation = None, isDrawing = False\<rparr>
       [Some (ex_op ''A'' ''u1''), None, Some (ex_op [] ''u3''), Some (ex_op ''B'' ''u2'')])
       [Some (ex_op ''A'' ''u1''), None, Some (ex_op [] ''u3''), Some (ex_op ''B'' ''u2'')])
     = [ex_op ''A'' ''u1'', ex_op ''B'' ''u2''] \<and>
   distinct (map op_id (cm_operations (loadOperations (loadOperations
       \<lparr>cm_operations = [ex_op ''Z'' ''u9''], undoStack = [ex_op ''Y'' ''u9''],
        remoteOperations = Map.empty, currentOperation = None, isDrawing = False\<rparr>
       [Some (ex_op ''A'' ''u1''), None, Some (ex_op [] ''u3''), Some (ex_op ''B'' ''u2'')])
       [Some (ex_op ''A'' ''u1''), None, Some (ex_op [] ''u3''), Some (ex_op ''B'' ''u2'')])))"
proof -
  let ?cm = "\<lparr>cm_operations = [ex_op ''Z'' ''u9''], undoStack = [ex_op ''Y'' ''u9''],
        remoteOperations = Map.empty, currentOperation = None, isDrawing = False\<rparr>"
  let ?snap = "[Some (ex_op ''A'' ''u1''), None, Some (ex_op [] ''u3''), Some (ex_op ''B'' ''u2'')]"
  have ids: "op_id (ex_op ''A'' ''u1'') = ''A''" "op_id (ex_op ''B'' ''u2'') = ''B''"
    "op_id (ex_op [] ''u3'') = []"
    by (simp_all add: ex_op_def new_operation_def)
  have sel: "map the (filter (\<lambda>e. e \<noteq> None \<and> op_id (the e) \<noteq> []) ?snap)
      = [ex_op ''A'' ''u1'', ex_op ''B'' ''u2'']"
    by (simp add: ids)
  have d: "distinct (map op_id [ex_op ''A'' ''u1'', ex_op ''B'' ''u2''])"
    by (simp add: ids)
  note t = loadOperations_idempotent [of ?cm ?snap, unfolded sel]
  from t d show ?thesis by blast
qed

text \<open>
  A log with a repeated id arises on the server: the id of a stroke is the client's, and
  two \<^verbatim>\<open>draw-start\<close> messages may carry the same one.
\<close>

lemma repeated_id_in_log:
  "map op_id (getOperations (drawingState (fst
     (handle_draw_start
        (fst (handle_draw_start (ex_server []) (ex_session ''u1'') 7 ''id1''
           (Some \<lparr>ds_point = Some \<lparr>point_x = Some (Finite 3), point_y = Some (Finite 4), pressure = None\<rparr>,
                  ds_color = Some ''#112233'', ds_lineWidth = Some (Finite 5),
                  ds_operationId = Some ''abc''\<rparr>)))
        (ex_session ''u1'') 8 ''id2''
        (Some \<lparr>ds_point = Some \<lparr>point_x = Some (Finite 6), point_y = Some (Finite 7), pressure = None\<rparr>,
               ds_color = Some ''#112233'', ds_lineWidth = Some (Finite 5),
               ds_operationId = Some ''abc''\<rparr>)))) ''room'')
   = [''abc'', ''abc'']"
  by (simp add: handle_draw_start_def Let_def getOperations_addOperation MAX_OPERATIONS_def
      ex_server_def ex_session_def new_operation_def)

text \<open>
  Claim C8 as stated fails on a snapshot that repeats an id: after the two loads the
  mirror's list holds both entries, and the id \<open>abc\<close> twice.
\<close>

theorem loadOperations_repeated_id_counterexample:
  "cm_operations (loadOperations (loadOperations
       \<lparr>cm_operations = [], undoStack = [], remoteOperations = Map.empty,
        currentOperation = None, isDrawing = False\<rparr>
       [Some (ex_op ''abc'' ''u1''), Some ((ex_op ''abc'' ''u1'')\<lparr>timestamp := 8\<rparr>)])
       [Some (ex_op ''abc'' ''u1''), Some ((ex_op ''abc'' ''u1'')\<lparr>timestamp := 8\<rparr>)])
     = [ex_op ''abc'' ''u1'', (ex_op ''abc'' ''u1'')\<lparr>timestamp := 8\<rparr>]
   \<and> map op_id (cm_operations (loadOperations (loadOperations
       \<lparr>cm_operations = [], undoStack = [], remoteOperations = Map.empty,
        currentOperation = None, isDrawing = False\<rparr>
       [Some (ex_op ''abc'' ''u1''), Some ((ex_op ''abc'' ''u1'')\<lparr>timestamp := 8\<rparr>)])
       [Some (ex_op ''abc'' ''u1''), Some ((ex_op ''abc'' ''u1'')\<lparr>timestamp := 8\<rparr>)]))
     = [''abc'', ''abc'']
   \<and> \<not> distinct (map op_id (cm_operations (loadOperations (loadOperations
       \<lparr>cm_operations = [], undoStack = [], remoteOperations = Map.empty,
        currentOperation = None, isDrawing = False\<rparr>
       [Some (ex_op ''abc'' ''u1''), Some ((ex_op ''abc'' ''u1'')\<lparr>timestamp := 8\<rparr>)])
       [Some (ex_op ''abc'' ''u1''), Some ((ex_op ''abc'' ''u1'')\<lparr>timestamp := 8\<rparr>)])))"
  by (simp add: loadOperations_operations ex_op_def new_operation_def)

end
